theory Spec2Isabelle
  imports Main
begin

section \<open>Products API: cache-aside reads, primary writes\<close>

text \<open>
  A shallow embedding of \<^verbatim>\<open>app.py\<close>. The three request handlers
  (\<^verbatim>\<open>get_product\<close>, \<^verbatim>\<open>update_product\<close>, \<^verbatim>\<open>create_product\<close>) and their helpers are
  translated line by line. What they talk to (the Redis server behind the client \<^verbatim>\<open>r\<close>,
  the two PostgreSQL endpoints behind \<^verbatim>\<open>PRIMARY_DSN\<close> and \<^verbatim>\<open>REPLICA_DSN\<close>) is an explicit
  environment that every function takes and returns. The environment also keeps the list
  of calls made to the collaborators, so that the number and the order of store and cache
  accesses can be stated.
\<close>

subsection \<open>Python values\<close>

text \<open>What \<^verbatim>\<open>json.loads\<close> returns (floats are left out: the program never stores one).
  \<open>JNull\<close> is Python's \<^verbatim>\<open>None\<close>.\<close>

datatype json =
    JNull
  | JBool bool
  | JInt int
  | JStr string
  | JList "json list"
  | JDict "(string \<times> json) list"

text \<open>Python truthiness, as used by \<^verbatim>\<open>if cached:\<close>.\<close>

fun json_truthy :: "json \<Rightarrow> bool" where
  "json_truthy JNull = False"
| "json_truthy (JBool b) = b"
| "json_truthy (JInt i) = (i \<noteq> 0)"
| "json_truthy (JStr s) = (s \<noteq> [])"
| "json_truthy (JList xs) = (xs \<noteq> [])"
| "json_truthy (JDict kvs) = (kvs \<noteq> [])"

text \<open>Decimal rendering of an integer, for the f-string in \<^verbatim>\<open>cache_key\<close>.\<close>

definition digit_char :: "nat \<Rightarrow> char" where
  "digit_char d = char_of (48 + d)"

function str_nat :: "nat \<Rightarrow> string" where
  "str_nat n = (if n < 10 then [digit_char n] else str_nat (n div 10) @ [digit_char (n mod 10)])"
  by pat_completeness auto
termination
  by (relation "measure (\<lambda>n. n)") auto

declare str_nat.simps [simp del]

definition str_int :: "int \<Rightarrow> string" where
  "str_int i = (if i < 0 then CHR ''-'' # str_nat (nat (- i)) else str_nat (nat i))"

text \<open>
  A row of the table \<^verbatim>\<open>products\<close>, as the \<^verbatim>\<open>RealDictCursor\<close> returns it: a dictionary
  with the four selected columns. The column \<^verbatim>\<open>id\<close> is the field \<open>id_col\<close>. A timestamp is
  a tick of the store's clock; the column \<^verbatim>\<open>updated_at\<close> is nullable as far as the program
  knows.
\<close>

type_synonym timestamp = nat

record product_row =
  id_col :: int
  name :: string
  price_cents :: int
  updated_at :: "timestamp option"

text \<open>The request bodies \<^verbatim>\<open>ProductUpdate\<close> (both fields optional, default \<^verbatim>\<open>None\<close>) and
  \<^verbatim>\<open>ProductCreate\<close> (both fields required).\<close>

record ProductUpdate =
  upd_name :: "string option"
  upd_price_cents :: "int option"

record ProductCreate =
  new_name :: string
  new_price_cents :: int

text \<open>A handler returns either the value decoded from the cache or a row of the store.\<close>

datatype py_obj = Decoded json | DictRow product_row

subsection \<open>Exceptions\<close>

text \<open>
  The classes of \<^verbatim>\<open>psycopg2\<close>'s DB-API hierarchy, and the failures of the Redis client: an
  exception of the client library (all derive from \<^verbatim>\<open>redis.exceptions.RedisError\<close>) or a
  socket-level \<^verbatim>\<open>OSError\<close> / \<^verbatim>\<open>ConnectionError\<close>.
\<close>

datatype psycopg2_error =
    OperationalError
  | InterfaceError
  | ProgrammingError
  | DataError
  | IntegrityError
  | InternalError
  | NotSupportedError

datatype redis_failure = RedisError | OSError | ConnectionError

datatype py_exc =
    HTTPException int string
  | Psycopg2 psycopg2_error
  | CacheClient redis_failure
  | JSONDecodeError
  | TypeError

fun class_name :: "psycopg2_error \<Rightarrow> string" where
  "class_name OperationalError = ''OperationalError''"
| "class_name InterfaceError = ''InterfaceError''"
| "class_name ProgrammingError = ''ProgrammingError''"
| "class_name DataError = ''DataError''"
| "class_name IntegrityError = ''IntegrityError''"
| "class_name InternalError = ''InternalError''"
| "class_name NotSupportedError = ''NotSupportedError''"

text \<open>\<^verbatim>\<open>except (psycopg2.OperationalError, psycopg2.InterfaceError)\<close>\<close>

fun connectivity :: "py_exc \<Rightarrow> bool" where
  "connectivity (Psycopg2 OperationalError) = True"
| "connectivity (Psycopg2 InterfaceError) = True"
| "connectivity _ = False"

text \<open>\<^verbatim>\<open>e.__class__.__name__\<close>, needed only for the exceptions the handlers catch.\<close>

fun exc_class_name :: "py_exc \<Rightarrow> string" where
  "exc_class_name (Psycopg2 e) = class_name e"
| "exc_class_name (HTTPException _ _) = ''HTTPException''"
| "exc_class_name (CacheClient RedisError) = ''RedisError''"
| "exc_class_name (CacheClient OSError) = ''OSError''"
| "exc_class_name (CacheClient ConnectionError) = ''ConnectionError''"
| "exc_class_name JSONDecodeError = ''JSONDecodeError''"
| "exc_class_name TypeError = ''TypeError''"

text \<open>\<^verbatim>\<open>except (redis.exceptions.RedisError, OSError, ConnectionError)\<close>\<close>

fun cache_failure :: "py_exc \<Rightarrow> bool" where
  "cache_failure (CacheClient _) = True"
| "cache_failure _ = False"

subsection \<open>The environment: Redis, the two store endpoints, the call log\<close>

text \<open>
  A text held by Redis is modelled by what \<^verbatim>\<open>json.loads\<close> makes of it: the JSON text of a
  value, the empty string, or a non-empty text that is not JSON.
\<close>

datatype redis_text = JsonText json | EmptyText | NotJsonText

datatype target = Primary | Replica

datatype assignment = SetName string | SetPriceCents int | SetUpdatedAtNow

datatype statement =
    Select int
  | Update "assignment list" int
  | Insert string int

datatype stage = AtConnect | AtExecute | AtCommit

text \<open>
  One store endpoint: its table \<^verbatim>\<open>products\<close> keyed by id, the next value of the sequence
  behind the column \<^verbatim>\<open>id\<close>, its clock (the value of \<^verbatim>\<open>now()\<close>), and the failure (if
  any) that it answers with, at the stage where it strikes.
\<close>

record db =
  rows :: "int \<rightharpoonup> product_row"
  next_id :: int
  clock :: timestamp
  fault :: "(stage \<times> psycopg2_error) option"

datatype event =
    CacheGet string
  | CacheSetex string int redis_text
  | CacheDelete string
  | Connect target
  | Execute target statement
  | Commit target

text \<open>
  \<open>cache\<close> is the Redis keyspace (text and time to live of each key).
  \<open>cache_faults\<close> schedules the client's failures: its head decides the next call to the
  client (\<open>None\<close>: the call goes through), and an empty schedule means a reachable server.
  \<open>CACHE_TTL_SECONDS\<close> is the configured constant of that name.
\<close>

record env =
  cache :: "string \<rightharpoonup> redis_text \<times> int"
  cache_faults :: "redis_failure option list"
  primary :: db
  replica :: db
  CACHE_TTL_SECONDS :: int
  trace :: "event list"

definition emit :: "env \<Rightarrow> event \<Rightarrow> env" where
  "emit e ev = e\<lparr>trace := trace e @ [ev]\<rparr>"

definition db_of :: "env \<Rightarrow> target \<Rightarrow> db" where
  "db_of e t = (case t of Primary \<Rightarrow> primary e | Replica \<Rightarrow> replica e)"

definition set_db :: "env \<Rightarrow> target \<Rightarrow> db \<Rightarrow> env" where
  "set_db e t d = (case t of Primary \<Rightarrow> e\<lparr>primary := d\<rparr> | Replica \<Rightarrow> e\<lparr>replica := d\<rparr>)"

text \<open>The store round-trips of a call log: the endpoints connected to, in order.\<close>

fun store_accesses :: "event list \<Rightarrow> target list" where
  "store_accesses [] = []"
| "store_accesses (Connect t # evs) = t # store_accesses evs"
| "store_accesses (ev # evs) = store_accesses evs"

text \<open>The writes issued to the cache (sets and deletes), in order.\<close>

fun cache_writes :: "event list \<Rightarrow> event list" where
  "cache_writes [] = []"
| "cache_writes (CacheSetex k ttl txt # evs) = CacheSetex k ttl txt # cache_writes evs"
| "cache_writes (CacheDelete k # evs) = CacheDelete k # cache_writes evs"
| "cache_writes (ev # evs) = cache_writes evs"

text \<open>The next call to the Redis client goes through.\<close>

definition cache_answers :: "env \<Rightarrow> bool" where
  "cache_answers e = (case cache_faults e of [] \<Rightarrow> True | f # fs \<Rightarrow> f = None)"

subsubsection \<open>The store\<close>

fun apply_assignment :: "timestamp \<Rightarrow> assignment \<Rightarrow> product_row \<Rightarrow> product_row" where
  "apply_assignment now (SetName n) r = r\<lparr>name := n\<rparr>"
| "apply_assignment now (SetPriceCents p) r = r\<lparr>price_cents := p\<rparr>"
| "apply_assignment now SetUpdatedAtNow r = r\<lparr>updated_at := Some now\<rparr>"

text \<open>
  Modelled from the spec: the column defaults of the table \<^verbatim>\<open>products\<close>, whose schema is
  not part of the source. The \<^verbatim>\<open>INSERT\<close> of the program names only \<^verbatim>\<open>name\<close> and
  \<^verbatim>\<open>price_cents\<close>; the store assigns \<open>id\<close> (here from its sequence) and sets
  \<open>updated_at\<close> to "now" on creation.
\<close>

definition new_row :: "db \<Rightarrow> string \<Rightarrow> int \<Rightarrow> product_row" where
  "new_row d n p =
     \<lparr>id_col = next_id d, name = n, price_cents = p, updated_at = Some (clock d)\<rparr>"

text \<open>
  The three statements of the program, run inside a transaction: the row that
  \<^verbatim>\<open>fetchone()\<close> then returns, and the table as the transaction sees it (installed only by
  a commit). The table is keyed by id, so an insert under an id that is taken is an
  \<^verbatim>\<open>IntegrityError\<close>.
\<close>

fun exec_sql :: "db \<Rightarrow> statement \<Rightarrow> (psycopg2_error + product_row option) \<times> db" where
  "exec_sql d (Select i) = (Inr (rows d i), d)"
| "exec_sql d (Update as i) =
     (case rows d i of
        None \<Rightarrow> (Inr None, d)
      | Some r \<Rightarrow>
          (let r' = fold (apply_assignment (clock d)) as r
           in (Inr (Some r'), d\<lparr>rows := (rows d)(i \<mapsto> r')\<rparr>)))"
| "exec_sql d (Insert n p) =
     (if rows d (next_id d) \<noteq> None then (Inl IntegrityError, d)
      else
        (let r = new_row d n p
         in (Inr (Some r), d\<lparr>rows := (rows d)(next_id d \<mapsto> r), next_id := next_id d + 1\<rparr>)))"

definition psycopg2_connect :: "env \<Rightarrow> target \<Rightarrow> (py_exc + unit) \<times> env" where
  "psycopg2_connect e t =
     (case fault (db_of e t) of
        Some (AtConnect, x) \<Rightarrow> (Inl (Psycopg2 x), emit e (Connect t))
      | _ \<Rightarrow> (Inr (), emit e (Connect t)))"

definition cur_execute ::
  "env \<Rightarrow> target \<Rightarrow> statement \<Rightarrow> (py_exc + product_row option \<times> db) \<times> env" where
  "cur_execute e t stmt =
     (case fault (db_of e t) of
        Some (AtExecute, x) \<Rightarrow> (Inl (Psycopg2 x), emit e (Execute t stmt))
      | _ \<Rightarrow>
          (case exec_sql (db_of e t) stmt of
             (Inl x, d) \<Rightarrow> (Inl (Psycopg2 x), emit e (Execute t stmt))
           | (Inr row, d) \<Rightarrow> (Inr (row, d), emit e (Execute t stmt))))"

text \<open>A commit that the endpoint acknowledges installs the transaction's table and is
  logged; one that fails leaves the table as it was.\<close>

definition conn_commit :: "env \<Rightarrow> target \<Rightarrow> db \<Rightarrow> (py_exc + unit) \<times> env" where
  "conn_commit e t d =
     (case fault (db_of e t) of
        Some (AtCommit, x) \<Rightarrow> (Inl (Psycopg2 x), e)
      | _ \<Rightarrow> (Inr (), emit (set_db e t d) (Commit t)))"

subsubsection \<open>The Redis client\<close>

definition next_cache_fault :: "env \<Rightarrow> redis_failure option \<times> env" where
  "next_cache_fault e =
     (case cache_faults e of
        [] \<Rightarrow> (None, e)
      | f # fs \<Rightarrow> (f, e\<lparr>cache_faults := fs\<rparr>))"

definition r_get :: "env \<Rightarrow> string \<Rightarrow> (py_exc + redis_text option) \<times> env" where
  "r_get e key =
     (case next_cache_fault (emit e (CacheGet key)) of
        (Some x, e1) \<Rightarrow> (Inl (CacheClient x), e1)
      | (None, e1) \<Rightarrow> (Inr (map_option fst (cache e1 key)), e1))"

definition r_setex :: "env \<Rightarrow> string \<Rightarrow> int \<Rightarrow> redis_text \<Rightarrow> (py_exc + unit) \<times> env" where
  "r_setex e key ttl txt =
     (case next_cache_fault (emit e (CacheSetex key ttl txt)) of
        (Some x, e1) \<Rightarrow> (Inl (CacheClient x), e1)
      | (None, e1) \<Rightarrow> (Inr (), e1\<lparr>cache := (cache e1)(key \<mapsto> (txt, ttl))\<rparr>))"

definition r_delete :: "env \<Rightarrow> string \<Rightarrow> (py_exc + unit) \<times> env" where
  "r_delete e key =
     (case next_cache_fault (emit e (CacheDelete key)) of
        (Some x, e1) \<Rightarrow> (Inl (CacheClient x), e1)
      | (None, e1) \<Rightarrow> (Inr (), e1\<lparr>cache := (cache e1)(key := None)\<rparr>))"

subsubsection \<open>The JSON codec\<close>

text \<open>\<^verbatim>\<open>str\<close> of a timestamp (the \<^verbatim>\<open>default=str\<close> of \<^verbatim>\<open>json.dumps\<close>).\<close>

definition str_timestamp :: "timestamp \<Rightarrow> string" where
  "str_timestamp t = str_nat t"

definition row_json :: "product_row \<Rightarrow> json" where
  "row_json r =
     JDict [(''id'', JInt (id_col r)),
            (''name'', JStr (name r)),
            (''price_cents'', JInt (price_cents r)),
            (''updated_at'',
               (case updated_at r of None \<Rightarrow> JNull | Some t \<Rightarrow> JStr (str_timestamp t)))]"

definition json_dumps :: "product_row \<Rightarrow> redis_text" where
  "json_dumps r = JsonText (row_json r)"

fun json_loads :: "redis_text \<Rightarrow> py_exc + json" where
  "json_loads (JsonText j) = Inr j"
| "json_loads EmptyText = Inl JSONDecodeError"
| "json_loads NotJsonText = Inl JSONDecodeError"

subsection \<open>The program\<close>

definition cache_key :: "int \<Rightarrow> string" where
  "cache_key product_id = ''product:'' @ str_int product_id"

definition redis_get_json :: "env \<Rightarrow> string \<Rightarrow> (py_exc + json) \<times> env" where
  "redis_get_json e key =
     (case r_get e key of
        (Inl x, e1) \<Rightarrow> (if cache_failure x then Inr JNull else Inl x, e1)
      | (Inr val, e1) \<Rightarrow>
          (case val of
             None \<Rightarrow> (Inr JNull, e1)
           | Some txt \<Rightarrow>
               (if txt = EmptyText then (Inr JNull, e1)
                else
                  (case json_loads txt of
                     Inl x \<Rightarrow> (if cache_failure x then Inr JNull else Inl x, e1)
                   | Inr j \<Rightarrow> (Inr j, e1)))))"

definition redis_set_json :: "env \<Rightarrow> string \<Rightarrow> product_row \<Rightarrow> int \<Rightarrow> (py_exc + unit) \<times> env" where
  "redis_set_json e key val ttl_seconds =
     (case r_setex e key ttl_seconds (json_dumps val) of
        (Inl x, e1) \<Rightarrow> (if cache_failure x then Inr () else Inl x, e1)
      | (Inr u, e1) \<Rightarrow> (Inr (), e1))"

definition redis_del :: "env \<Rightarrow> string \<Rightarrow> (py_exc + unit) \<times> env" where
  "redis_del e key =
     (case r_delete e key of
        (Inl x, e1) \<Rightarrow> (if cache_failure x then Inr () else Inl x, e1)
      | (Inr u, e1) \<Rightarrow> (Inr (), e1))"

text \<open>
  \<^verbatim>\<open>with psycopg2.connect(dsn, ...) as conn\<close>: the connection's context manager commits
  when the block is left without an exception, here by the \<^verbatim>\<open>return\<close>.
\<close>

definition fetch_product_from_db ::
  "env \<Rightarrow> target \<Rightarrow> int \<Rightarrow> (py_exc + product_row option) \<times> env" where
  "fetch_product_from_db e dsn product_id =
     (case psycopg2_connect e dsn of
        (Inl x, e1) \<Rightarrow> (Inl x, e1)
      | (Inr u, e1) \<Rightarrow>
          (case cur_execute e1 dsn (Select product_id) of
             (Inl x, e2) \<Rightarrow> (Inl x, e2)
           | (Inr (row, d), e2) \<Rightarrow>
               (case conn_commit e2 dsn d of
                  (Inl x, e3) \<Rightarrow> (Inl x, e3)
                | (Inr u', e3) \<Rightarrow> (Inr row, e3))))"

text \<open>The tail of \<^verbatim>\<open>get_product\<close>, from \<^verbatim>\<open>if not row\<close> on.\<close>

definition get_product_finish ::
  "env \<Rightarrow> string \<Rightarrow> product_row option \<Rightarrow> (py_exc + py_obj) \<times> env" where
  "get_product_finish e key row =
     (case row of
        None \<Rightarrow> (Inl (HTTPException 404 ''Product not found''), e)
      | Some r \<Rightarrow>
          (case redis_set_json e key r (CACHE_TTL_SECONDS e) of
             (Inl x, e1) \<Rightarrow> (Inl x, e1)
           | (Inr u, e1) \<Rightarrow> (Inr (DictRow r), e1)))"

definition get_product :: "env \<Rightarrow> int \<Rightarrow> (py_exc + py_obj) \<times> env" where
  "get_product e product_id =
     (let key = cache_key product_id in
      case redis_get_json e key of
        (Inl x, e1) \<Rightarrow> (Inl x, e1)
      | (Inr cached, e1) \<Rightarrow>
          (if json_truthy cached then (Inr (Decoded cached), e1)
           else
             (case fetch_product_from_db e1 Replica product_id of
                (Inr row, e2) \<Rightarrow> get_product_finish e2 key row
              | (Inl x, e2) \<Rightarrow>
                  (if connectivity x then
                     (case fetch_product_from_db e2 Primary product_id of
                        (Inr row, e3) \<Rightarrow> get_product_finish e3 key row
                      | (Inl y, e3) \<Rightarrow>
                          (if connectivity y then
                             (Inl (HTTPException 503
                                    (''Database unavailable: '' @ exc_class_name y)), e3)
                           else (Inl y, e3)))
                   else (Inl x, e2)))))"

text \<open>The handler of both writes:
  \<^verbatim>\<open>except (psycopg2.OperationalError, psycopg2.InterfaceError) as e: raise HTTPException(503, ...)\<close>\<close>

definition primary_unavailable :: "py_exc \<Rightarrow> py_exc" where
  "primary_unavailable x =
     (if connectivity x then
        HTTPException 503 (''Primary database unavailable: '' @ exc_class_name x)
      else x)"

text \<open>The body of the \<^verbatim>\<open>try\<close> of both writes: connect to the primary, execute, fetch the
  returned row, commit.\<close>

definition primary_write :: "env \<Rightarrow> statement \<Rightarrow> (py_exc + product_row option) \<times> env" where
  "primary_write e stmt =
     (case psycopg2_connect e Primary of
        (Inl x, e1) \<Rightarrow> (Inl x, e1)
      | (Inr u, e1) \<Rightarrow>
          (case cur_execute e1 Primary stmt of
             (Inl x, e2) \<Rightarrow> (Inl x, e2)
           | (Inr (row, d), e2) \<Rightarrow>
               (case conn_commit e2 Primary d of
                  (Inl x, e3) \<Rightarrow> (Inl x, e3)
                | (Inr u', e3) \<Rightarrow> (Inr row, e3))))"

definition set_parts :: "ProductUpdate \<Rightarrow> assignment list" where
  "set_parts payload =
     (case upd_name payload of None \<Rightarrow> [] | Some n \<Rightarrow> [SetName n]) @
     (case upd_price_cents payload of None \<Rightarrow> [] | Some p \<Rightarrow> [SetPriceCents p]) @
     [SetUpdatedAtNow]"

definition update_product :: "env \<Rightarrow> int \<Rightarrow> ProductUpdate \<Rightarrow> (py_exc + py_obj) \<times> env" where
  "update_product e product_id payload =
     (if upd_name payload = None \<and> upd_price_cents payload = None then
        (Inl (HTTPException 400 ''No fields to update''), e)
      else
        (case primary_write e (Update (set_parts payload) product_id) of
           (Inl x, e1) \<Rightarrow> (Inl (primary_unavailable x), e1)
         | (Inr updated, e1) \<Rightarrow>
             (case updated of
                None \<Rightarrow> (Inl (HTTPException 404 ''Product not found''), e1)
              | Some row \<Rightarrow>
                  (case redis_del e1 (cache_key product_id) of
                     (Inl x, e2) \<Rightarrow> (Inl x, e2)
                   | (Inr u, e2) \<Rightarrow> (Inr (DictRow row), e2)))))"

definition create_product :: "env \<Rightarrow> ProductCreate \<Rightarrow> (py_exc + py_obj) \<times> env" where
  "create_product e payload =
     (case primary_write e (Insert (new_name payload) (new_price_cents payload)) of
        (Inl x, e1) \<Rightarrow> (Inl (primary_unavailable x), e1)
      | (Inr created, e1) \<Rightarrow>
          (case created of
             None \<Rightarrow> (Inl TypeError, e1)
           | Some row \<Rightarrow>
               (case redis_set_json e1 (cache_key (id_col row)) row (CACHE_TTL_SECONDS e1) of
                  (Inl x, e2) \<Rightarrow> (Inl x, e2)
                | (Inr u, e2) \<Rightarrow> (Inr (DictRow row), e2))))"

subsection \<open>What a request leaves behind\<close>

text \<open>The outcome of a request: what the caller gets and the state of the two stores.\<close>

definition outcome :: "(py_exc + py_obj) \<times> env \<Rightarrow> (py_exc + py_obj) \<times> db \<times> db" where
  "outcome x = (fst x, primary (snd x), replica (snd x))"

subsection \<open>Concrete environments\<close>

definition juice :: product_row where
  "juice = \<lparr>id_col = 1, name = ''Juice'', price_cents = 250, updated_at = Some 7\<rparr>"

definition empty_store :: db where
  "empty_store = \<lparr>rows = Map.empty, next_id = 1, clock = 7, fault = None\<rparr>"

definition juice_store :: db where
  "juice_store = \<lparr>rows = [1 \<mapsto> juice], next_id = 2, clock = 9, fault = None\<rparr>"

definition juice_payload :: ProductCreate where
  "juice_payload = \<lparr>new_name = ''Juice'', new_price_cents = 250\<rparr>"

definition cider_payload :: ProductUpdate where
  "cider_payload = \<lparr>upd_name = Some ''Cider'', upd_price_cents = None\<rparr>"

definition no_fields :: ProductUpdate where
  "no_fields = \<lparr>upd_name = None, upd_price_cents = None\<rparr>"

text \<open>A reachable, empty cache in front of two reachable stores that hold the juice.\<close>

definition fresh_env :: env where
  "fresh_env =
     \<lparr>cache = Map.empty, cache_faults = [], primary = juice_store, replica = juice_store,
      CACHE_TTL_SECONDS = 60, trace = []\<rparr>"

text \<open>Nothing created yet: both stores are empty.\<close>

definition blank_env :: env where
  "blank_env = fresh_env\<lparr>primary := empty_store, replica := empty_store\<rparr>"

text \<open>The cache holds an old copy of product 1, under another name and price.\<close>

definition stale_juice :: product_row where
  "stale_juice = \<lparr>id_col = 1, name = ''Old juice'', price_cents = 200, updated_at = Some 3\<rparr>"

definition cached_env :: env where
  "cached_env = fresh_env\<lparr>cache := [cache_key 1 \<mapsto> (json_dumps stale_juice, 60)]\<rparr>"

definition replica_down :: "env \<Rightarrow> env" where
  "replica_down e = e\<lparr>replica := (replica e)\<lparr>fault := Some (AtConnect, OperationalError)\<rparr>\<rparr>"

definition primary_down :: "env \<Rightarrow> env" where
  "primary_down e = e\<lparr>primary := (primary e)\<lparr>fault := Some (AtConnect, InterfaceError)\<rparr>\<rparr>"

text \<open>The replica is reachable but rejects the query.\<close>

definition replica_query_error :: "env \<Rightarrow> env" where
  "replica_query_error e = e\<lparr>replica := (replica e)\<lparr>fault := Some (AtExecute, ProgrammingError)\<rparr>\<rparr>"

text \<open>The cache answers the lookup and then fails on the next call.\<close>

definition cache_lost_after_lookup :: "env \<Rightarrow> env" where
  "cache_lost_after_lookup e = e\<lparr>cache_faults := [None, Some ConnectionError]\<rparr>"

text \<open>The cache is unreachable for the next call.\<close>

definition cache_down :: "env \<Rightarrow> env" where
  "cache_down e = e\<lparr>cache_faults := [Some ConnectionError]\<rparr>"

text \<open>Two steps of the surroundings: the replica applies what the primary has committed,
  and the cache is emptied.\<close>

definition replica_catches_up :: "env \<Rightarrow> env" where
  "replica_catches_up e = e\<lparr>replica := (replica e)\<lparr>rows := rows (primary e)\<rparr>\<rparr>"

definition cache_cleared :: "env \<Rightarrow> env" where
  "cache_cleared e = e\<lparr>cache := Map.empty\<rparr>"

section \<open>Verification\<close>

subsection \<open>Auxiliary facts\<close>

text \<open>The key of a product in the cache is \<^verbatim>\<open>product:\<close> followed by its id in decimal.\<close>

lemma cache_key_example: "cache_key 42 = ''product:42''"
  by code_simp

text \<open>The projections of the call log distribute over concatenation.\<close>

lemma store_accesses_append [simp]:
  "store_accesses (xs @ ys) = store_accesses xs @ store_accesses ys"
  by (induction xs rule: store_accesses.induct) simp_all

lemma cache_writes_append [simp]:
  "cache_writes (xs @ ys) = cache_writes xs @ cache_writes ys"
  by (induction xs rule: cache_writes.induct) simp_all

text \<open>The collaborators' operations, for unfolding.\<close>

lemmas prims = emit_def db_of_def set_db_def psycopg2_connect_def cur_execute_def conn_commit_def
  next_cache_fault_def r_get_def r_setex_def r_delete_def

subsubsection \<open>What the helpers leave unchanged\<close>

lemma redis_get_json_frame:
  assumes "redis_get_json e key = (r, e1)"
  shows "cache e1 = cache e" "primary e1 = primary e" "replica e1 = replica e"
    "CACHE_TTL_SECONDS e1 = CACHE_TTL_SECONDS e" "trace e1 = trace e @ [CacheGet key]"
    "cache_faults e1 = tl (cache_faults e)"
  using assms
  by (auto simp: redis_get_json_def prims split: list.splits option.splits if_splits sum.splits)

lemma redis_set_json_frame:
  assumes "redis_set_json e key v ttl = (r, e1)"
  shows "r = Inr ()" "primary e1 = primary e" "replica e1 = replica e"
    "CACHE_TTL_SECONDS e1 = CACHE_TTL_SECONDS e"
    "trace e1 = trace e @ [CacheSetex key ttl (json_dumps v)]"
    "cache_faults e1 = tl (cache_faults e)"
  using assms
  by (auto simp: redis_set_json_def prims split: list.splits option.splits if_splits sum.splits)

lemma redis_del_frame:
  assumes "redis_del e key = (r, e1)"
  shows "r = Inr ()" "primary e1 = primary e" "replica e1 = replica e"
    "CACHE_TTL_SECONDS e1 = CACHE_TTL_SECONDS e"
    "trace e1 = trace e @ [CacheDelete key]"
    "cache_faults e1 = tl (cache_faults e)"
  using assms
  by (auto simp: redis_del_def prims split: list.splits option.splits if_splits sum.splits)

lemma fetch_answers:
  assumes "fault (db_of e t) = None"
  shows "fetch_product_from_db e t i =
    (Inr (rows (db_of e t) i), e\<lparr>trace := trace e @ [Connect t, Execute t (Select i), Commit t]\<rparr>)"
  using assms by (cases t) (simp_all add: fetch_product_from_db_def prims)

lemma fetch_fails:
  assumes "fault (db_of e t) = Some (st, x)"
  shows "fetch_product_from_db e t i =
    (Inl (Psycopg2 x),
     e\<lparr>trace := trace e @ Connect t # (if st = AtConnect then [] else [Execute t (Select i)])\<rparr>)"
  using assms by (cases t; cases st) (simp_all add: fetch_product_from_db_def prims)

lemma fetch_frame_all:
  assumes "fetch_product_from_db e t i = (r, e1)"
  shows "cache e1 = cache e \<and> primary e1 = primary e \<and> replica e1 = replica e \<and>
    CACHE_TTL_SECONDS e1 = CACHE_TTL_SECONDS e \<and> cache_faults e1 = cache_faults e \<and>
    store_accesses (trace e1) = store_accesses (trace e) @ [t] \<and>
    cache_writes (trace e1) = cache_writes (trace e)"
proof (cases "fault (db_of e t)")
  case None
  from fetch_answers [OF this, of i] assms show ?thesis by auto
next
  case (Some a)
  obtain st x where "a = (st, x)" by (cases a)
  with Some have "fault (db_of e t) = Some (st, x)" by simp
  from fetch_fails [OF this, of i] assms show ?thesis by auto
qed

lemma fetch_frame:
  assumes "fetch_product_from_db e t i = (r, e1)"
  shows "cache e1 = cache e" "primary e1 = primary e" "replica e1 = replica e"
    "CACHE_TTL_SECONDS e1 = CACHE_TTL_SECONDS e" "cache_faults e1 = cache_faults e"
    "store_accesses (trace e1) = store_accesses (trace e) @ [t]"
    "cache_writes (trace e1) = cache_writes (trace e)"
  using fetch_frame_all [OF assms] by simp_all

lemma finish_frame:
  assumes "get_product_finish e key row = (r, e1)"
  shows "primary e1 = primary e" "replica e1 = replica e"
    "store_accesses (trace e1) = store_accesses (trace e)"
  using assms
  by (auto simp: get_product_finish_def split: option.splits prod.splits sum.splits
      dest: redis_set_json_frame)


lemma finish_accesses:
  "store_accesses (trace (snd (get_product_finish e key row))) = store_accesses (trace e)"
  by (rule finish_frame(3) [OF surjective_pairing])

subsubsection \<open>The lookup and the read handler\<close>

lemma row_json_truthy: "json_truthy (row_json p)"
  by (simp add: row_json_def)

lemma redis_get_json_found:
  assumes "cache e key = Some (JsonText j, ttl)" and "cache_answers e"
  shows "redis_get_json e key =
    (Inr j, e\<lparr>trace := trace e @ [CacheGet key], cache_faults := tl (cache_faults e)\<rparr>)"
  using assms
  by (auto simp: redis_get_json_def cache_answers_def prims split: list.splits)

lemma redis_get_json_absent:
  assumes "cache e key = None"
  shows "fst (redis_get_json e key) = Inr JNull"
  using assms
  by (auto simp: redis_get_json_def prims split: list.splits option.splits)

lemma redis_get_json_failure:
  assumes "cache_faults e = Some f # fs"
  shows "redis_get_json e key =
    (Inr JNull, e\<lparr>trace := trace e @ [CacheGet key], cache_faults := fs\<rparr>)"
  using assms by (simp add: redis_get_json_def prims)

lemma get_product_hit:
  assumes "redis_get_json e (cache_key product_id) = (Inr c, e1)" and "json_truthy c"
  shows "get_product e product_id = (Inr (Decoded c), e1)"
  using assms by (simp add: get_product_def)

lemma get_product_replica_answers:
  assumes "redis_get_json e (cache_key product_id) = (Inr c, e1)" and "\<not> json_truthy c"
    and "fault (replica e) = None"
  shows "get_product e product_id =
    get_product_finish
      (e1\<lparr>trace := trace e1 @
          [Connect Replica, Execute Replica (Select product_id), Commit Replica]\<rparr>)
      (cache_key product_id) (rows (replica e) product_id)"
proof -
  have r: "replica e1 = replica e"
    using assms(1) by (rule redis_get_json_frame)
  then have "fault (db_of e1 Replica) = None"
    using assms(3) by (simp add: db_of_def)
  from fetch_answers [OF this, of product_id] r show ?thesis
    using assms(1,2) by (simp add: get_product_def db_of_def)
qed

lemma get_product_replica_raises:
  assumes "redis_get_json e (cache_key product_id) = (Inr c, e1)" and "\<not> json_truthy c"
    and "fault (replica e) = Some (st, x)" and "\<not> connectivity (Psycopg2 x)"
  shows "get_product e product_id =
    (Inl (Psycopg2 x),
     e1\<lparr>trace := trace e1 @
        Connect Replica # (if st = AtConnect then [] else [Execute Replica (Select product_id)])\<rparr>)"
proof -
  have "replica e1 = replica e"
    using assms(1) by (rule redis_get_json_frame)
  then have "fault (db_of e1 Replica) = Some (st, x)"
    using assms(3) by (simp add: db_of_def)
  from fetch_fails [OF this, of product_id] show ?thesis
    using assms(1,2,4) by (simp add: get_product_def)
qed

text \<open>The environment in which the fallback to the primary starts.\<close>

lemma get_product_falls_back:
  assumes "redis_get_json e (cache_key product_id) = (Inr c, e1)" and "\<not> json_truthy c"
    and "fault (replica e) = Some (st, x)" and "connectivity (Psycopg2 x)"
    and "e2 = e1\<lparr>trace := trace e1 @
        Connect Replica # (if st = AtConnect then [] else [Execute Replica (Select product_id)])\<rparr>"
  shows "get_product e product_id =
    (case fetch_product_from_db e2 Primary product_id of
       (Inr row, e3) \<Rightarrow> get_product_finish e3 (cache_key product_id) row
     | (Inl y, e3) \<Rightarrow>
         (if connectivity y then
            (Inl (HTTPException 503 (''Database unavailable: '' @ exc_class_name y)), e3)
          else (Inl y, e3)))"
proof -
  have "replica e1 = replica e"
    using assms(1) by (rule redis_get_json_frame)
  then have "fault (db_of e1 Replica) = Some (st, x)"
    using assms(3) by (simp add: db_of_def)
  from fetch_fails [OF this, of product_id] show ?thesis
    using assms(1,2,4,5) by (simp add: get_product_def)
qed

lemma finish_outcome:
  "fst (get_product_finish e key row) =
     (case row of
        None \<Rightarrow> Inl (HTTPException 404 ''Product not found'')
      | Some r \<Rightarrow> Inr (DictRow r))"
  by (auto simp: get_product_finish_def split: option.splits prod.splits sum.splits
      dest: redis_set_json_frame(1))

lemma get_product_primary_answers:
  assumes "redis_get_json e (cache_key product_id) = (Inr c, e1)" and "\<not> json_truthy c"
    and "fault (replica e) = Some (st, x)" and "connectivity (Psycopg2 x)"
    and "fault (primary e) = None"
  shows "get_product e product_id =
    get_product_finish
      (e1\<lparr>trace := trace e1 @
          Connect Replica #
          (if st = AtConnect then [] else [Execute Replica (Select product_id)]) @
          [Connect Primary, Execute Primary (Select product_id), Commit Primary]\<rparr>)
      (cache_key product_id) (rows (primary e) product_id)"
proof -
  define e2 where "e2 = e1\<lparr>trace := trace e1 @
      Connect Replica # (if st = AtConnect then [] else [Execute Replica (Select product_id)])\<rparr>"
  have p: "primary e2 = primary e"
    using redis_get_json_frame(2) [OF assms(1)] by (simp add: e2_def)
  then have "fault (db_of e2 Primary) = None"
    using assms(5) by (simp add: db_of_def)
  from fetch_answers [OF this, of product_id] p
  show ?thesis
    using get_product_falls_back [OF assms(1-4) e2_def]
    by (simp add: db_of_def e2_def)
qed

lemma get_product_primary_raises:
  assumes "redis_get_json e (cache_key product_id) = (Inr c, e1)" and "\<not> json_truthy c"
    and "fault (replica e) = Some (st, x)" and "connectivity (Psycopg2 x)"
    and "fault (primary e) = Some (st', y)"
  shows "get_product e product_id =
    (if connectivity (Psycopg2 y) then
       Inl (HTTPException 503 (''Database unavailable: '' @ class_name y))
     else Inl (Psycopg2 y),
     e1\<lparr>trace := trace e1 @
        Connect Replica #
        (if st = AtConnect then [] else [Execute Replica (Select product_id)]) @
        Connect Primary #
        (if st' = AtConnect then [] else [Execute Primary (Select product_id)])\<rparr>)"
proof -
  define e2 where "e2 = e1\<lparr>trace := trace e1 @
      Connect Replica # (if st = AtConnect then [] else [Execute Replica (Select product_id)])\<rparr>"
  have p: "primary e2 = primary e"
    using redis_get_json_frame(2) [OF assms(1)] by (simp add: e2_def)
  then have "fault (db_of e2 Primary) = Some (st', y)"
    using assms(5) by (simp add: db_of_def)
  from fetch_fails [OF this, of product_id]
  show ?thesis
    using get_product_falls_back [OF assms(1-4) e2_def]
    by (simp add: e2_def)
qed

text \<open>The store round-trips of a read that misses the cache.\<close>

lemma get_product_miss_accesses:
  assumes "redis_get_json e (cache_key product_id) = (Inr c, e1)" and "\<not> json_truthy c"
  shows "store_accesses (trace (snd (get_product e product_id))) =
    store_accesses (trace e) @
    (case fault (replica e) of
       None \<Rightarrow> [Replica]
     | Some (st, x) \<Rightarrow> if connectivity (Psycopg2 x) then [Replica, Primary] else [Replica])"
proof -
  note t1 = redis_get_json_frame(5) [OF assms(1)]
  show ?thesis
  proof (cases "fault (replica e)")
    case None
    from get_product_replica_answers [OF assms None] t1 show ?thesis
      by (simp add: None finish_accesses)
  next
    case (Some a)
    obtain st x where a: "a = (st, x)" by (cases a)
    have fr: "fault (replica e) = Some (st, x)" using Some a by simp
    show ?thesis
    proof (cases "connectivity (Psycopg2 x)")
      case False
      from get_product_replica_raises [OF assms fr False] t1 show ?thesis
        by (simp add: fr False)
    next
      case True
      show ?thesis
      proof (cases "fault (primary e)")
        case None
        from get_product_primary_answers [OF assms fr True None] t1 show ?thesis
          by (simp add: fr True finish_accesses)
      next
        case (Some b)
        obtain st' y where "b = (st', y)" by (cases b)
        with Some have "fault (primary e) = Some (st', y)" by simp
        from get_product_primary_raises [OF assms fr True this] t1 show ?thesis
          by (simp add: fr True)
      qed
    qed
  qed
qed

subsubsection \<open>Cache writes, accepted and failed\<close>


lemma redis_set_json_failure:
  assumes "cache_faults e = Some f # fs"
  shows "redis_set_json e key v ttl =
    (Inr (), e\<lparr>trace := trace e @ [CacheSetex key ttl (json_dumps v)], cache_faults := fs\<rparr>)"
  using assms by (simp add: redis_set_json_def prims)


lemma redis_del_failure:
  assumes "cache_faults e = Some f # fs"
  shows "redis_del e key =
    (Inr (), e\<lparr>trace := trace e @ [CacheDelete key], cache_faults := fs\<rparr>)"
  using assms by (simp add: redis_del_def prims)



subsubsection \<open>Writes on the primary\<close>

lemma primary_write_answers:
  assumes "fault (primary e) = None"
  shows "primary_write e stmt =
    (case exec_sql (primary e) stmt of
       (Inl x, d) \<Rightarrow>
         (Inl (Psycopg2 x), e\<lparr>trace := trace e @ [Connect Primary, Execute Primary stmt]\<rparr>)
     | (Inr row, d) \<Rightarrow>
         (Inr row,
          e\<lparr>primary := d,
            trace := trace e @ [Connect Primary, Execute Primary stmt, Commit Primary]\<rparr>))"
  using assms by (simp add: primary_write_def prims split: prod.splits sum.splits)

lemma primary_write_fails:
  assumes "fault (primary e) = Some (st, x)"
  shows "\<exists>y evs. primary_write e stmt = (Inl y, e\<lparr>trace := trace e @ Connect Primary # evs\<rparr>) \<and>
    store_accesses evs = [] \<and> cache_writes evs = []"
  using assms
  by (cases st) (auto simp: primary_write_def prims split: prod.splits sum.splits)

lemma primary_write_frame_all:
  assumes "primary_write e stmt = (r, e1)"
  shows "cache e1 = cache e \<and> cache_faults e1 = cache_faults e \<and> replica e1 = replica e \<and>
    CACHE_TTL_SECONDS e1 = CACHE_TTL_SECONDS e \<and>
    cache_writes (trace e1) = cache_writes (trace e) \<and>
    store_accesses (trace e1) = store_accesses (trace e) @ [Primary] \<and>
    (\<forall>x. r = Inl x \<longrightarrow> primary e1 = primary e)"
proof (cases "fault (primary e)")
  case None
  from primary_write_answers [OF this, of stmt] assms show ?thesis
    by (auto split: prod.splits sum.splits)
next
  case (Some a)
  obtain st x where "a = (st, x)" by (cases a)
  with Some have "fault (primary e) = Some (st, x)" by simp
  from primary_write_fails [OF this, of stmt] assms show ?thesis by auto
qed

lemma primary_write_frame:
  assumes "primary_write e stmt = (r, e1)"
  shows "cache e1 = cache e" "cache_faults e1 = cache_faults e" "replica e1 = replica e"
    "CACHE_TTL_SECONDS e1 = CACHE_TTL_SECONDS e"
    "cache_writes (trace e1) = cache_writes (trace e)"
    "store_accesses (trace e1) = store_accesses (trace e) @ [Primary]"
  using primary_write_frame_all [OF assms] by simp_all

lemma primary_write_raises:
  assumes "fault (primary e) = Some (st, x)"
  shows "\<exists>y. fst (primary_write e stmt) = Inl y"
  using primary_write_fails [OF assms, of stmt] by auto


text \<open>An insert that succeeds: the row it returns and leaves in the table.\<close>

lemma primary_write_insert:
  assumes "primary_write e (Insert n p) = (Inr created, e1)"
  shows "created = Some (new_row (primary e) n p) \<and>
    rows (primary e1) (next_id (primary e)) = created"
proof (cases "fault (primary e)")
  case None
  from primary_write_answers [OF this, of "Insert n p"] assms show ?thesis
    by (auto simp: Let_def split: if_splits)
next
  case (Some a)
  obtain st x where "a = (st, x)" by (cases a)
  with Some have "fault (primary e) = Some (st, x)" by simp
  from primary_write_raises [OF this, of "Insert n p"] assms show ?thesis by simp
qed


subsubsection \<open>Outcomes\<close>

text \<open>The outcome of a read depends on the cache only through the answer to its lookup.\<close>

lemma finish_result:
  "outcome (get_product_finish e key row) =
     (case row of
        None \<Rightarrow> Inl (HTTPException 404 ''Product not found'')
      | Some r \<Rightarrow> Inr (DictRow r),
      primary e, replica e)"
  using finish_frame(1,2) [OF surjective_pairing, of e key row]
  by (simp add: outcome_def finish_outcome)

lemma get_product_miss_outcome:
  assumes m: "redis_get_json e (cache_key product_id) = (Inr c, e1)" "\<not> json_truthy c"
    and m': "redis_get_json e' (cache_key product_id) = (Inr c', e1')" "\<not> json_truthy c'"
    and p: "primary e' = primary e" and r: "replica e' = replica e"
  shows "outcome (get_product e' product_id) = outcome (get_product e product_id)"
proof -
  note f = redis_get_json_frame(2,3) [OF m(1)]
  note f' = redis_get_json_frame(2,3) [OF m'(1)]
  show ?thesis
  proof (cases "fault (replica e)")
    case None
    then have None': "fault (replica e') = None" using r by simp
    from get_product_replica_answers [OF m None] get_product_replica_answers [OF m' None']
    show ?thesis using f f' p r by (simp add: finish_result)
  next
    case (Some a)
    obtain st x where "a = (st, x)" by (cases a)
    with Some have fr: "fault (replica e) = Some (st, x)" by simp
    then have fr': "fault (replica e') = Some (st, x)" using r by simp
    show ?thesis
    proof (cases "connectivity (Psycopg2 x)")
      case False
      from get_product_replica_raises [OF m fr False] get_product_replica_raises [OF m' fr' False]
      show ?thesis using f f' p r by (simp add: outcome_def)
    next
      case True
      show ?thesis
      proof (cases "fault (primary e)")
        case None
        then have None': "fault (primary e') = None" using p by simp
        from get_product_primary_answers [OF m fr True None]
          get_product_primary_answers [OF m' fr' True None']
        show ?thesis using f f' p r by (simp add: finish_result)
      next
        case (Some b)
        obtain st' y where "b = (st', y)" by (cases b)
        with Some have fp: "fault (primary e) = Some (st', y)" by simp
        then have fp': "fault (primary e') = Some (st', y)" using p by simp
        from get_product_primary_raises [OF m fr True fp]
          get_product_primary_raises [OF m' fr' True fp']
        show ?thesis using f f' p r by (simp add: outcome_def)
      qed
    qed
  qed
qed

lemma get_product_outcome_cong:
  assumes l: "fst (redis_get_json e' (cache_key product_id)) =
      fst (redis_get_json e (cache_key product_id))"
    and p: "primary e' = primary e" and r: "replica e' = replica e"
  shows "outcome (get_product e' product_id) = outcome (get_product e product_id)"
proof -
  obtain a e1 where g: "redis_get_json e (cache_key product_id) = (a, e1)"
    by (cases "redis_get_json e (cache_key product_id)")
  obtain a' e1' where g': "redis_get_json e' (cache_key product_id) = (a', e1')"
    by (cases "redis_get_json e' (cache_key product_id)")
  have a': "a' = a" using l g g' by simp
  note f = redis_get_json_frame(2,3) [OF g]
  note f' = redis_get_json_frame(2,3) [OF g']
  show ?thesis
  proof (cases a)
    case (Inl x)
    then show ?thesis
      using g g' a' f f' p r by (simp add: get_product_def outcome_def)
  next
    case (Inr c)
    show ?thesis
    proof (cases "json_truthy c")
      case True
      from get_product_hit [OF g [unfolded Inr] True] get_product_hit [OF g' [unfolded a' Inr] True]
      show ?thesis using f f' p r by (simp add: outcome_def)
    next
      case False
      from get_product_miss_outcome [OF g [unfolded Inr] False g' [unfolded a' Inr] False p r]
      show ?thesis .
    qed
  qed
qed

text \<open>A write on the primary neither reads nor changes what concerns the cache.\<close>

lemma primary_write_fails_at:
  assumes "fault (primary e) = Some (st, x)"
  shows "primary_write e stmt =
    (case st of
       AtConnect \<Rightarrow> (Inl (Psycopg2 x), e\<lparr>trace := trace e @ [Connect Primary]\<rparr>)
     | AtExecute \<Rightarrow>
         (Inl (Psycopg2 x), e\<lparr>trace := trace e @ [Connect Primary, Execute Primary stmt]\<rparr>)
     | AtCommit \<Rightarrow>
         (case exec_sql (primary e) stmt of
            (Inl y, d) \<Rightarrow>
              (Inl (Psycopg2 y), e\<lparr>trace := trace e @ [Connect Primary, Execute Primary stmt]\<rparr>)
          | (Inr row, d) \<Rightarrow>
              (Inl (Psycopg2 x), e\<lparr>trace := trace e @ [Connect Primary, Execute Primary stmt]\<rparr>)))"
  using assms
  by (cases st) (simp_all add: primary_write_def prims split: prod.splits sum.splits)

lemma primary_write_cache_independent:
  "primary_write (e\<lparr>cache := c, cache_faults := gs\<rparr>) stmt =
     (fst (primary_write e stmt), (snd (primary_write e stmt))\<lparr>cache := c, cache_faults := gs\<rparr>)"
proof (cases "fault (primary e)")
  case None
  then have "fault (primary (e\<lparr>cache := c, cache_faults := gs\<rparr>)) = None"
    by simp
  from primary_write_answers [OF this, of stmt] primary_write_answers [OF None, of stmt]
  show ?thesis
    by (simp split: prod.splits sum.splits)
next
  case (Some a)
  obtain st x where "a = (st, x)" by (cases a)
  with Some have f: "fault (primary e) = Some (st, x)" by simp
  then have "fault (primary (e\<lparr>cache := c, cache_faults := gs\<rparr>)) = Some (st, x)"
    by simp
  from primary_write_fails_at [OF this, of stmt] primary_write_fails_at [OF f, of stmt]
  show ?thesis
    by (cases st) (simp_all split: prod.splits sum.splits)
qed

lemma redis_del_result:
  "fst (redis_del e key) = Inr ()" "primary (snd (redis_del e key)) = primary e"
  "replica (snd (redis_del e key)) = replica e"
  using redis_del_frame(1-3) [OF surjective_pairing, of e key] by simp_all

lemma redis_set_json_result:
  "fst (redis_set_json e key v ttl) = Inr ()" "primary (snd (redis_set_json e key v ttl)) = primary e"
  "replica (snd (redis_set_json e key v ttl)) = replica e"
  using redis_set_json_frame(1-3) [OF surjective_pairing, of e key v ttl] by simp_all

lemma update_product_with_fields:
  assumes "\<not> (upd_name payload = None \<and> upd_price_cents payload = None)"
  shows "update_product e product_id payload =
    (case primary_write e (Update (set_parts payload) product_id) of
       (Inl x, e1) \<Rightarrow> (Inl (primary_unavailable x), e1)
     | (Inr updated, e1) \<Rightarrow>
         (case updated of
            None \<Rightarrow> (Inl (HTTPException 404 ''Product not found''), e1)
          | Some row \<Rightarrow>
              (case redis_del e1 (cache_key product_id) of
                 (Inl x, e2) \<Rightarrow> (Inl x, e2)
               | (Inr u, e2) \<Rightarrow> (Inr (DictRow row), e2))))"
  using assms by (auto simp: update_product_def)

lemma update_product_result:
  "outcome (update_product e product_id payload) =
     (if upd_name payload = None \<and> upd_price_cents payload = None then
        (Inl (HTTPException 400 ''No fields to update''), primary e, replica e)
      else
        (case fst (primary_write e (Update (set_parts payload) product_id)) of
           Inl x \<Rightarrow> Inl (primary_unavailable x)
         | Inr None \<Rightarrow> Inl (HTTPException 404 ''Product not found'')
         | Inr (Some row) \<Rightarrow> Inr (DictRow row),
         primary (snd (primary_write e (Update (set_parts payload) product_id))),
         replica (snd (primary_write e (Update (set_parts payload) product_id)))))"
proof (cases "upd_name payload = None \<and> upd_price_cents payload = None")
  case True
  then show ?thesis by (simp add: update_product_def outcome_def)
next
  case False
  obtain a e1 where w: "primary_write e (Update (set_parts payload) product_id) = (a, e1)"
    by (cases "primary_write e (Update (set_parts payload) product_id)")
  show ?thesis
  proof (cases a)
    case (Inl x)
    then show ?thesis using w unfolding if_not_P [OF False]
      by (simp add: update_product_with_fields [OF False] outcome_def)
  next
    case (Inr updated)
    show ?thesis
    proof (cases updated)
      case None
      then show ?thesis using w Inr unfolding if_not_P [OF False]
        by (simp add: update_product_with_fields [OF False] outcome_def)
    next
      case (Some row)
      obtain u e2 where d: "redis_del e1 (cache_key product_id) = (u, e2)"
        by (cases "redis_del e1 (cache_key product_id)")
      from redis_del_frame(1-3) [OF d] d
      show ?thesis using w Inr Some unfolding if_not_P [OF False]
        by (simp add: update_product_with_fields [OF False] outcome_def)
    qed
  qed
qed

lemma create_product_result:
  "outcome (create_product e payload) =
     (case fst (primary_write e (Insert (new_name payload) (new_price_cents payload))) of
        Inl x \<Rightarrow> Inl (primary_unavailable x)
      | Inr None \<Rightarrow> Inl TypeError
      | Inr (Some row) \<Rightarrow> Inr (DictRow row),
      primary (snd (primary_write e (Insert (new_name payload) (new_price_cents payload)))),
      replica (snd (primary_write e (Insert (new_name payload) (new_price_cents payload)))))"
proof -
  obtain a e1 where w: "primary_write e (Insert (new_name payload) (new_price_cents payload)) =
      (a, e1)"
    by (cases "primary_write e (Insert (new_name payload) (new_price_cents payload))")
  show ?thesis
  proof (cases a)
    case (Inl x)
    then show ?thesis using w by (simp add: create_product_def outcome_def)
  next
    case (Inr created)
    show ?thesis
    proof (cases created)
      case None
      then show ?thesis using w Inr by (simp add: create_product_def outcome_def)
    next
      case (Some row)
      obtain u e2 where s: "redis_set_json e1 (cache_key (id_col row)) row
          (CACHE_TTL_SECONDS e1) = (u, e2)"
        by (cases "redis_set_json e1 (cache_key (id_col row)) row (CACHE_TTL_SECONDS e1)")
      from redis_set_json_frame(1-3) [OF s] s
      show ?thesis using w Inr Some
        by (simp add: create_product_def outcome_def)
    qed
  qed
qed

subsubsection \<open>Unfolding rules for concrete runs\<close>

lemmas envs = fresh_env_def blank_env_def cached_env_def replica_down_def primary_down_def
  juice_store_def empty_store_def juice_def stale_juice_def juice_payload_def
  cider_payload_def no_fields_def replica_query_error_def replica_catches_up_def
  cache_cleared_def

lemmas runs = get_product_def get_product_finish_def fetch_product_from_db_def
  redis_get_json_def redis_set_json_def redis_del_def update_product_def create_product_def
  primary_write_def primary_unavailable_def set_parts_def json_dumps_def cache_answers_def
  cache_lost_after_lookup_def cache_down_def new_row_def Let_def

subsection \<open>The read path\<close>

text \<open>
  What counts as a hit is decided by \<^verbatim>\<open>if cached:\<close>. Every serialized record is truthy; an
  entry whose value is falsy (an empty object, say) sends the read to the store like a
  miss; and a text that is not JSON makes the lookup raise, as \<^verbatim>\<open>JSONDecodeError\<close> is not
  among the classes that the helper catches.
\<close>

lemma falsy_entry_reads_store:
  assumes "cache e (cache_key product_id) = Some (JsonText j, ttl)" and "cache_answers e"
    and "\<not> json_truthy j"
  shows "\<exists>ts. store_accesses (trace (snd (get_product e product_id))) =
    store_accesses (trace e) @ Replica # ts"
  using get_product_miss_accesses [OF redis_get_json_found [OF assms(1,2)] assms(3)]
  by (auto split: option.splits)

lemma not_json_entry_raises:
  assumes "cache e (cache_key product_id) = Some (NotJsonText, ttl)" and "cache_answers e"
  shows "fst (redis_get_json e (cache_key product_id)) = Inl JSONDecodeError"
    and "fst (get_product e product_id) = Inl JSONDecodeError"
  using assms
  by (auto simp: get_product_def redis_get_json_def cache_answers_def prims split: list.splits)

text \<open>
  Claim C1. For every product id whose cache entry is present (the cache client answers
  and holds a serialized record under \<^verbatim>\<open>product:{id}\<close>), Get Product returns the cached
  value right after the cache lookup and performs no store access: no connection is opened
  to the replica or to the primary, and both stores are left as they were. The cached
  record \<open>p\<close> is arbitrary: it need not be what the stores hold now.
\<close>

theorem get_product_cache_hit:
  assumes "cache e (cache_key product_id) = Some (json_dumps p, ttl)" and "cache_answers e"
  shows "fst (get_product e product_id) = Inr (Decoded (row_json p)) \<and>
    trace (snd (get_product e product_id)) = trace e @ [CacheGet (cache_key product_id)] \<and>
    store_accesses (trace (snd (get_product e product_id))) = store_accesses (trace e) \<and>
    primary (snd (get_product e product_id)) = primary e \<and>
    replica (snd (get_product e product_id)) = replica e"
proof -
  from assms have "cache e (cache_key product_id) = Some (JsonText (row_json p), ttl)"
    by (simp add: json_dumps_def)
  from redis_get_json_found [OF this assms(2)] row_json_truthy [of p]
  have "get_product e product_id =
      (Inr (Decoded (row_json p)),
       e\<lparr>trace := trace e @ [CacheGet (cache_key product_id)],
         cache_faults := tl (cache_faults e)\<rparr>)"
    by (rule get_product_hit)
  then show ?thesis by simp
qed

theorem get_product_cache_hit_witness:
  "cache cached_env (cache_key 1) = Some (json_dumps stale_juice, 60) \<and>
   cache_answers cached_env \<and>
   rows (replica cached_env) 1 = Some juice \<and> juice \<noteq> stale_juice \<and>
   fst (get_product cached_env 1) = Inr (Decoded (row_json stale_juice)) \<and>
   store_accesses (trace (snd (get_product cached_env 1))) = []"
  using get_product_cache_hit [of cached_env 1 stale_juice 60]
  by (simp add: cached_env_def fresh_env_def cache_answers_def juice_store_def juice_def
      stale_juice_def)


text \<open>
  Claim C2. The store round-trips of a Get Product request are exactly one, to the replica,
  on a cache miss when the replica answers; exactly two, the replica and then the primary,
  on a cache miss when the replica raises a connectivity failure; and none on a cache hit.
  A hit is a lookup that returns a truthy value, a miss one that returns a falsy value
  (\<^verbatim>\<open>None\<close> included).
\<close>

theorem get_product_store_round_trips:
  assumes "redis_get_json e (cache_key product_id) = (Inr c, e1)"
  shows "(\<not> json_truthy c \<and> fault (replica e) = None \<longrightarrow>
      store_accesses (trace (snd (get_product e product_id))) =
        store_accesses (trace e) @ [Replica]) \<and>
    (\<not> json_truthy c \<and> fault (replica e) = Some (st, x) \<and> connectivity (Psycopg2 x) \<longrightarrow>
      store_accesses (trace (snd (get_product e product_id))) =
        store_accesses (trace e) @ [Replica, Primary]) \<and>
    (json_truthy c \<longrightarrow>
      store_accesses (trace (snd (get_product e product_id))) = store_accesses (trace e))"
proof (intro conjI impI)
  assume "\<not> json_truthy c \<and> fault (replica e) = None"
  then show "store_accesses (trace (snd (get_product e product_id))) =
      store_accesses (trace e) @ [Replica]"
    using get_product_miss_accesses [OF assms] by simp
next
  assume "\<not> json_truthy c \<and> fault (replica e) = Some (st, x) \<and> connectivity (Psycopg2 x)"
  then show "store_accesses (trace (snd (get_product e product_id))) =
      store_accesses (trace e) @ [Replica, Primary]"
    using get_product_miss_accesses [OF assms] by simp
next
  assume "json_truthy c"
  with assms have "get_product e product_id = (Inr (Decoded c), e1)"
    by (rule get_product_hit)
  then show "store_accesses (trace (snd (get_product e product_id))) =
      store_accesses (trace e)"
    using redis_get_json_frame(5) [OF assms] by simp
qed

theorem get_product_store_round_trips_witness:
  "fst (redis_get_json fresh_env (cache_key 1)) = Inr JNull \<and>
   fault (replica fresh_env) = None \<and>
   store_accesses (trace (snd (get_product fresh_env 1))) = [Replica] \<and>
   fst (redis_get_json (replica_down fresh_env) (cache_key 1)) = Inr JNull \<and>
   fault (replica (replica_down fresh_env)) = Some (AtConnect, OperationalError) \<and>
   store_accesses (trace (snd (get_product (replica_down fresh_env) 1))) = [Replica, Primary] \<and>
   fst (redis_get_json cached_env (cache_key 1)) = Inr (row_json stale_juice) \<and>
   store_accesses (trace (snd (get_product cached_env 1))) = []"
proof -
  have m1: "redis_get_json fresh_env (cache_key 1) =
      (Inr JNull, snd (redis_get_json fresh_env (cache_key 1)))"
    by (simp add: redis_get_json_def prims envs)
  have m2: "redis_get_json (replica_down fresh_env) (cache_key 1) =
      (Inr JNull, snd (redis_get_json (replica_down fresh_env) (cache_key 1)))"
    by (simp add: redis_get_json_def prims envs)
  have m3: "redis_get_json cached_env (cache_key 1) =
      (Inr (row_json stale_juice), snd (redis_get_json cached_env (cache_key 1)))"
    by (simp add: redis_get_json_def prims envs json_dumps_def)
  have f1: "fst (redis_get_json fresh_env (cache_key 1)) = Inr JNull"
    by (subst m1) simp
  have f2: "fst (redis_get_json (replica_down fresh_env) (cache_key 1)) = Inr JNull"
    by (subst m2) simp
  have f3: "fst (redis_get_json cached_env (cache_key 1)) = Inr (row_json stale_juice)"
    by (subst m3) simp
  from get_product_store_round_trips [OF m1, of AtConnect OperationalError]
    get_product_store_round_trips [OF m2, of AtConnect OperationalError]
    get_product_store_round_trips [OF m3, of AtConnect OperationalError]
  show ?thesis
    unfolding f1 f2 f3 by (simp add: envs row_json_truthy)
qed

text \<open>
  Claim C4. On a cache miss where the replica fetch and then the primary fetch both raise a
  connectivity failure, Get Product raises the 503 error whose detail names the class of
  the failure that the fallback raised; the stores were tried once each and no more, no
  write was issued to the cache, and the cache holds what it held.
\<close>

theorem get_product_both_unreachable:
  assumes "redis_get_json e (cache_key product_id) = (Inr c, e1)" and "\<not> json_truthy c"
    and "fault (replica e) = Some (st, x)" and "connectivity (Psycopg2 x)"
    and "fault (primary e) = Some (st', y)" and "connectivity (Psycopg2 y)"
  shows "fst (get_product e product_id) =
      Inl (HTTPException 503 (''Database unavailable: '' @ class_name y)) \<and>
    store_accesses (trace (snd (get_product e product_id))) =
      store_accesses (trace e) @ [Replica, Primary] \<and>
    cache_writes (trace (snd (get_product e product_id))) = cache_writes (trace e) \<and>
    cache (snd (get_product e product_id)) = cache e"
  using get_product_primary_raises [OF assms(1-5)] assms(6)
    redis_get_json_frame(1,5) [OF assms(1)]
  by simp

theorem get_product_both_unreachable_witness:
  "fst (redis_get_json (primary_down (replica_down fresh_env)) (cache_key 1)) = Inr JNull \<and>
   fault (replica (primary_down (replica_down fresh_env))) = Some (AtConnect, OperationalError) \<and>
   fault (primary (primary_down (replica_down fresh_env))) = Some (AtConnect, InterfaceError) \<and>
   fst (get_product (primary_down (replica_down fresh_env)) 1) =
     Inl (HTTPException 503 ''Database unavailable: InterfaceError'') \<and>
   store_accesses (trace (snd (get_product (primary_down (replica_down fresh_env)) 1))) =
     [Replica, Primary] \<and>
   cache_writes (trace (snd (get_product (primary_down (replica_down fresh_env)) 1))) = [] \<and>
   cache (snd (get_product (primary_down (replica_down fresh_env)) 1)) = Map.empty"
proof -
  have m: "redis_get_json (primary_down (replica_down fresh_env)) (cache_key 1) =
      (Inr JNull, snd (redis_get_json (primary_down (replica_down fresh_env)) (cache_key 1)))"
    by (simp add: redis_get_json_def prims envs)
  have f: "fst (redis_get_json (primary_down (replica_down fresh_env)) (cache_key 1)) = Inr JNull"
    by (subst m) simp
  from get_product_both_unreachable [OF m, of AtConnect OperationalError AtConnect InterfaceError]
  show ?thesis
    unfolding f by (simp add: envs)
qed

text \<open>
  Claim C10. On a cache miss where the replica fetch raises, the primary is tried only if
  the exception is an \<^verbatim>\<open>OperationalError\<close> or an \<^verbatim>\<open>InterfaceError\<close>. Any other exception of
  the replica fetch leaves the handler as it is, not turned into a 404 or a 503, and the
  primary is never connected to.
\<close>

theorem get_product_fallback_only_on_connectivity:
  assumes "redis_get_json e (cache_key product_id) = (Inr c, e1)" and "\<not> json_truthy c"
    and "fault (replica e) = Some (st, x)"
  shows "store_accesses (trace (snd (get_product e product_id))) =
      store_accesses (trace e) @
      (if x = OperationalError \<or> x = InterfaceError then [Replica, Primary] else [Replica]) \<and>
    (x \<noteq> OperationalError \<and> x \<noteq> InterfaceError \<longrightarrow>
      fst (get_product e product_id) = Inl (Psycopg2 x))"
proof (cases "connectivity (Psycopg2 x)")
  case True
  then have "x = OperationalError \<or> x = InterfaceError"
    by (cases x) simp_all
  then show ?thesis
    using get_product_miss_accesses [OF assms(1,2)] assms(3) True by auto
next
  case False
  then have "x \<noteq> OperationalError \<and> x \<noteq> InterfaceError"
    by (cases x) simp_all
  then show ?thesis
    using get_product_miss_accesses [OF assms(1,2)] assms(3) False
      get_product_replica_raises [OF assms False]
    by simp
qed

theorem get_product_fallback_only_on_connectivity_witness:
  "fst (redis_get_json (replica_query_error fresh_env) (cache_key 1)) = Inr JNull \<and>
   fault (replica (replica_query_error fresh_env)) = Some (AtExecute, ProgrammingError) \<and>
   store_accesses (trace (snd (get_product (replica_query_error fresh_env) 1))) = [Replica] \<and>
   fst (get_product (replica_query_error fresh_env) 1) = Inl (Psycopg2 ProgrammingError)"
proof -
  have m: "redis_get_json (replica_query_error fresh_env) (cache_key 1) =
      (Inr JNull, snd (redis_get_json (replica_query_error fresh_env) (cache_key 1)))"
    by (simp add: redis_get_json_def prims envs)
  have f: "fst (redis_get_json (replica_query_error fresh_env) (cache_key 1)) = Inr JNull"
    by (subst m) simp
  from get_product_fallback_only_on_connectivity [OF m, of AtExecute ProgrammingError]
  show ?thesis
    unfolding f by (simp add: envs)
qed




subsection \<open>The write path\<close>

text \<open>
  Claim C7. An Update Product request with neither field raises the 400 error before
  anything else happens: the environment, its call log included, is the one the request
  started in, so no store was accessed and the stores are unchanged.
\<close>

theorem update_product_no_fields:
  assumes "upd_name payload = None" and "upd_price_cents payload = None"
  shows "update_product e product_id payload =
      (Inl (HTTPException 400 ''No fields to update''), e) \<and>
    store_accesses (trace (snd (update_product e product_id payload))) =
      store_accesses (trace e) \<and>
    primary (snd (update_product e product_id payload)) = primary e"
  using assms by (simp add: update_product_def)

theorem update_product_no_fields_witness:
  "upd_name no_fields = None \<and> upd_price_cents no_fields = None \<and>
   update_product fresh_env 1 no_fields =
     (Inl (HTTPException 400 ''No fields to update''), fresh_env) \<and>
   store_accesses (trace (snd (update_product fresh_env 1 no_fields))) = []"
  using update_product_no_fields [of no_fields fresh_env 1]
  by (simp add: envs)






text \<open>An insert that the primary commits: the run of the handler.\<close>

lemma create_product_commits:
  assumes w: "primary_write e (Insert (new_name payload) (new_price_cents payload)) =
      (Inr created, e1)"
    and row: "row = new_row (primary e) (new_name payload) (new_price_cents payload)"
  shows "create_product e payload =
      (Inr (DictRow row),
       snd (redis_set_json e1 (cache_key (next_id (primary e))) row (CACHE_TTL_SECONDS e)))"
    and "rows (primary e1) (next_id (primary e)) = Some row"
proof -
  from primary_write_insert [OF w] row
  have c: "created = Some row" and "rows (primary e1) (next_id (primary e)) = created"
    by simp_all
  then show "rows (primary e1) (next_id (primary e)) = Some row"
    by simp
  have "id_col row = next_id (primary e)"
    by (simp add: row new_row_def)
  then show "create_product e payload =
      (Inr (DictRow row),
       snd (redis_set_json e1 (cache_key (next_id (primary e))) row (CACHE_TTL_SECONDS e)))"
    using w c primary_write_frame(4) [OF w]
    by (auto simp: create_product_def split: prod.splits sum.splits
        dest: redis_set_json_frame(1))
qed




subsection \<open>Create, then read\<close>

text \<open>
  Claim C9, as amended. After Create Product succeeds with the row \<open>p\<close>, the primary
  holds \<open>p\<close>, which carries the supplied name and price. A Get Product for its id with no
  cache entry for it returns \<open>p\<close> provided that the endpoint that answers holds what the
  primary held after the creation: the replica if it answers (it has replicated the
  insert), or the primary if the replica raises a connectivity failure.
\<close>

theorem create_then_get_round_trip:
  "create_product e payload = (Inr (DictRow p), e1) \<longrightarrow>
     rows (primary e1) (id_col p) = Some p \<and>
     name p = new_name payload \<and> price_cents p = new_price_cents payload \<and>
     (cache e2 (cache_key (id_col p)) = None \<and>
      (fault (replica e2) = None \<and>
         rows (replica e2) (id_col p) = rows (primary e1) (id_col p) \<or>
       fault (replica e2) = Some (st, x) \<and> connectivity (Psycopg2 x) \<and>
         fault (primary e2) = None \<and>
         rows (primary e2) (id_col p) = rows (primary e1) (id_col p)) \<longrightarrow>
      fst (get_product e2 (id_col p)) = Inr (DictRow p))"
proof (intro impI conjI)
  assume c: "create_product e payload = (Inr (DictRow p), e1)"
  obtain r0 e0 where w: "primary_write e (Insert (new_name payload) (new_price_cents payload)) =
      (r0, e0)"
    by (cases "primary_write e (Insert (new_name payload) (new_price_cents payload))")
  from c w obtain created where r0: "r0 = Inr created"
    by (cases r0) (auto simp: create_product_def)
  define row where "row = new_row (primary e) (new_name payload) (new_price_cents payload)"
  note run = create_product_commits [OF w [unfolded r0] row_def]
  from run(1) c have p: "p = row"
    and e1: "e1 = snd (redis_set_json e0 (cache_key (next_id (primary e))) row
      (CACHE_TTL_SECONDS e))"
    by simp_all
  have "primary e1 = primary e0"
    unfolding e1 by (rule redis_set_json_frame(2) [OF surjective_pairing])
  with run(2) show held: "rows (primary e1) (id_col p) = Some p"
    by (simp add: p row_def new_row_def)
  show "name p = new_name payload" and "price_cents p = new_price_cents payload"
    by (simp_all add: p row_def new_row_def)
  assume a: "cache e2 (cache_key (id_col p)) = None \<and>
      (fault (replica e2) = None \<and>
         rows (replica e2) (id_col p) = rows (primary e1) (id_col p) \<or>
       fault (replica e2) = Some (st, x) \<and> connectivity (Psycopg2 x) \<and>
         fault (primary e2) = None \<and>
         rows (primary e2) (id_col p) = rows (primary e1) (id_col p))"
  obtain r3 e3 where g: "redis_get_json e2 (cache_key (id_col p)) = (r3, e3)"
    by (cases "redis_get_json e2 (cache_key (id_col p))")
  with redis_get_json_absent [of e2 "cache_key (id_col p)"] a
  have miss: "redis_get_json e2 (cache_key (id_col p)) = (Inr JNull, e3)"
    by simp
  have nt: "\<not> json_truthy JNull"
    by simp
  from a consider
    (replica) "fault (replica e2) = None" "rows (replica e2) (id_col p) = Some p"
    | (primary) "fault (replica e2) = Some (st, x)" "connectivity (Psycopg2 x)"
      "fault (primary e2) = None" "rows (primary e2) (id_col p) = Some p"
    using held by auto
  then show "fst (get_product e2 (id_col p)) = Inr (DictRow p)"
  proof cases
    case replica
    from get_product_replica_answers [OF miss nt replica(1)] replica(2) show ?thesis
      by (simp add: finish_outcome)
  next
    case primary
    from get_product_primary_answers [OF miss nt primary(1-3)] primary(4) show ?thesis
      by (simp add: finish_outcome)
  qed
qed

theorem create_then_get_round_trip_witness:
  "create_product blank_env juice_payload =
     (Inr (DictRow juice), snd (create_product blank_env juice_payload)) \<and>
   rows (primary (snd (create_product blank_env juice_payload))) 1 = Some juice \<and>
   cache (cache_cleared (replica_catches_up (snd (create_product blank_env juice_payload))))
     (cache_key 1) = None \<and>
   fault (replica (cache_cleared (replica_catches_up (snd (create_product blank_env juice_payload))))) =
     None \<and>
   rows (replica (cache_cleared (replica_catches_up (snd (create_product blank_env juice_payload))))) 1 =
     rows (primary (snd (create_product blank_env juice_payload))) 1 \<and>
   fst (get_product
      (cache_cleared (replica_catches_up (snd (create_product blank_env juice_payload)))) 1) =
     Inr (DictRow juice) \<and>
   cache (cache_cleared (replica_down (snd (create_product blank_env juice_payload))))
     (cache_key 1) = None \<and>
   fault (replica (cache_cleared (replica_down (snd (create_product blank_env juice_payload))))) =
     Some (AtConnect, OperationalError) \<and>
   fault (primary (cache_cleared (replica_down (snd (create_product blank_env juice_payload))))) =
     None \<and>
   rows (primary (cache_cleared (replica_down (snd (create_product blank_env juice_payload))))) 1 =
     rows (primary (snd (create_product blank_env juice_payload))) 1 \<and>
   fst (get_product
      (cache_cleared (replica_down (snd (create_product blank_env juice_payload)))) 1) =
     Inr (DictRow juice)"
proof -
  have c: "create_product blank_env juice_payload =
      (Inr (DictRow juice), snd (create_product blank_env juice_payload))"
    by (simp add: runs prims envs)
  have i: "id_col juice = 1"
    by (simp add: juice_def)
  from create_then_get_round_trip [of blank_env juice_payload juice
      "snd (create_product blank_env juice_payload)"
      "cache_cleared (replica_catches_up (snd (create_product blank_env juice_payload)))"
      AtConnect OperationalError]
    create_then_get_round_trip [of blank_env juice_payload juice
      "snd (create_product blank_env juice_payload)"
      "cache_cleared (replica_down (snd (create_product blank_env juice_payload)))"
      AtConnect OperationalError]
    c
  show ?thesis
    unfolding i by (simp add: runs prims envs)
qed

text \<open>
  Claim C9 as stated fails while the replica has not applied the insert: the juice is
  created on the primary, the cache is cleared, the replica answers that it has no such
  row, and Get Product raises the 404 error without asking the primary.
\<close>

theorem create_then_get_round_trip_counterexample:
  "fst (create_product blank_env juice_payload) = Inr (DictRow juice) \<and>
   rows (primary (snd (create_product blank_env juice_payload))) 1 = Some juice \<and>
   cache (cache_cleared (snd (create_product blank_env juice_payload))) (cache_key 1) = None \<and>
   fst (get_product (cache_cleared (snd (create_product blank_env juice_payload))) 1) =
     Inl (HTTPException 404 ''Product not found'') \<and>
   store_accesses
     (trace (snd (get_product (cache_cleared (snd (create_product blank_env juice_payload))) 1))) =
     [Primary, Replica]"
  by (simp add: runs prims envs)

subsection \<open>Failures of the cache\<close>

text \<open>
  Claim C8. Whatever the key, the value and the time to live, and whatever failure the
  cache client raises on a call, the Cache Adapter returns normally: the lookup returns
  \<^verbatim>\<open>None\<close>, the set and the delete return and leave the cache as it was. A failure of the
  cache does not change the outcome of a request (what the caller gets, and the state of
  the two stores) beyond sending a read to the store: a read whose lookup fails has the
  outcome of the same read on an empty, reachable cache; a read whose lookup goes through
  has the same outcome whatever fails afterwards; and the outcome of an update and of a
  creation is the same for every content and every failure schedule of the cache.
\<close>

theorem cache_failures_absorbed:
  "(cache_faults e = Some f # fs \<longrightarrow>
      redis_get_json e key =
        (Inr JNull, e\<lparr>trace := trace e @ [CacheGet key], cache_faults := fs\<rparr>) \<and>
      redis_set_json e key v ttl =
        (Inr (), e\<lparr>trace := trace e @ [CacheSetex key ttl (json_dumps v)], cache_faults := fs\<rparr>) \<and>
      redis_del e key =
        (Inr (), e\<lparr>trace := trace e @ [CacheDelete key], cache_faults := fs\<rparr>) \<and>
      outcome (get_product e product_id) =
        outcome (get_product (e\<lparr>cache := Map.empty, cache_faults := []\<rparr>) product_id)) \<and>
   outcome (get_product (e\<lparr>cache_faults := None # gs\<rparr>) product_id) =
     outcome (get_product (e\<lparr>cache_faults := []\<rparr>) product_id) \<and>
   outcome (update_product (e\<lparr>cache := c, cache_faults := gs\<rparr>) product_id upd) =
     outcome (update_product e product_id upd) \<and>
   outcome (create_product (e\<lparr>cache := c, cache_faults := gs\<rparr>) new) =
     outcome (create_product e new)"
proof (intro conjI impI)
  assume down: "cache_faults e = Some f # fs"
  show "redis_get_json e key =
      (Inr JNull, e\<lparr>trace := trace e @ [CacheGet key], cache_faults := fs\<rparr>)"
    using down by (rule redis_get_json_failure)
  show "redis_set_json e key v ttl =
      (Inr (), e\<lparr>trace := trace e @ [CacheSetex key ttl (json_dumps v)], cache_faults := fs\<rparr>)"
    using down by (rule redis_set_json_failure)
  show "redis_del e key =
      (Inr (), e\<lparr>trace := trace e @ [CacheDelete key], cache_faults := fs\<rparr>)"
    using down by (rule redis_del_failure)
  have "fst (redis_get_json e (cache_key product_id)) =
      fst (redis_get_json (e\<lparr>cache := Map.empty, cache_faults := []\<rparr>) (cache_key product_id))"
    using redis_get_json_failure [OF down] by (simp add: redis_get_json_absent)
  then show "outcome (get_product e product_id) =
      outcome (get_product (e\<lparr>cache := Map.empty, cache_faults := []\<rparr>) product_id)"
    by (intro get_product_outcome_cong) simp_all
next
  have "fst (redis_get_json (e\<lparr>cache_faults := None # gs\<rparr>) (cache_key product_id)) =
      fst (redis_get_json (e\<lparr>cache_faults := []\<rparr>) (cache_key product_id))"
    by (auto simp: redis_get_json_def prims split: option.splits sum.splits)
  then show "outcome (get_product (e\<lparr>cache_faults := None # gs\<rparr>) product_id) =
      outcome (get_product (e\<lparr>cache_faults := []\<rparr>) product_id)"
    by (intro get_product_outcome_cong) simp_all
next
  show "outcome (update_product (e\<lparr>cache := c, cache_faults := gs\<rparr>) product_id upd) =
      outcome (update_product e product_id upd)"
    by (simp add: update_product_result primary_write_cache_independent)
next
  show "outcome (create_product (e\<lparr>cache := c, cache_faults := gs\<rparr>) new) =
      outcome (create_product e new)"
    by (simp add: create_product_result primary_write_cache_independent)
qed

theorem cache_failures_absorbed_witness:
  "cache_faults (cache_down cached_env) = [Some ConnectionError] \<and>
   cache (cache_down cached_env) (cache_key 1) = Some (json_dumps stale_juice, 60) \<and>
   fst (redis_get_json (cache_down cached_env) (cache_key 1)) = Inr JNull \<and>
   fst (redis_set_json (cache_down cached_env) (cache_key 1) juice 60) = Inr () \<and>
   cache (snd (redis_set_json (cache_down cached_env) (cache_key 1) juice 60)) =
     cache cached_env \<and>
   fst (redis_del (cache_down cached_env) (cache_key 1)) = Inr () \<and>
   cache (snd (redis_del (cache_down cached_env) (cache_key 1))) = cache cached_env \<and>
   outcome (get_product (cache_down cached_env) 1) = outcome (get_product fresh_env 1) \<and>
   fst (get_product (cache_down cached_env) 1) = Inr (DictRow juice)"
  using cache_failures_absorbed [of "cache_down cached_env" ConnectionError "[]" "cache_key 1"
      juice 60 1 "[]" Map.empty no_fields juice_payload]
  by (simp add: runs prims envs outcome_def)

end
